theory Spec2Isabelle
  imports Main
begin

section \<open>JavaScript values of model definitions\<close>

text \<open>
  The loaders receive a \<open>definition: any\<close>. The values a definition is built from are
  modelled by \<open>jsval\<close>: undefined, null, booleans, numbers (integers and NaN; the loaders
  never calculate with a value of a definition, they test its truthiness and hand it on),
  strings, arrays and plain objects. A plain object is the list of its own properties in
  insertion order; a property is looked up by its first occurrence.
\<close>

datatype jsval =
    JUndefined
  | JNull
  | JBool bool
  | JNum int
  | JNaN
  | JStr string
  | JArr "jsval list"
  | JObj "(string \<times> jsval) list"

text \<open>
  The exceptions the loaders can raise. Reading a property of undefined or null and calling
  a value that is not a function both raise a JavaScript TypeError; the model keeps the two
  apart. An assignment to an undeclared variable raises a ReferenceError in strict code.
\<close>

datatype error = TypeError_read | TypeError_call | ReferenceError

text \<open>ToBoolean: what \<open>!!v\<close>, \<open>v ? a : b\<close>, \<open>v && w\<close>, \<open>v || w\<close> and \<open>if (v)\<close> test.\<close>

fun truthy :: "jsval \<Rightarrow> bool" where
  "truthy JUndefined = False"
| "truthy JNull = False"
| "truthy (JBool b) = b"
| "truthy (JNum n) = (n \<noteq> 0)"
| "truthy JNaN = False"
| "truthy (JStr s) = (s \<noteq> [])"
| "truthy (JArr xs) = True"
| "truthy (JObj kvs) = True"

text \<open>\<open>a || b\<close> and \<open>c ? c : d\<close> with \<open>c\<close> evaluated once.\<close>

definition js_or :: "jsval \<Rightarrow> jsval \<Rightarrow> jsval" where
  "js_or a b = (if truthy a then a else b)"

text \<open>Decimal numerals, the names of the index properties of arrays and strings.\<close>

definition digit_char :: "nat \<Rightarrow> char" where
  "digit_char d = char_of (48 + d)"

fun show_nat :: "nat \<Rightarrow> string" where
  "show_nat n = (if n < 10 then [digit_char n] else show_nat (n div 10) @ [digit_char (n mod 10)])"

declare show_nat.simps [simp del]

definition index_keys :: "nat \<Rightarrow> string list" where
  "index_keys n = map show_nat [0..<n]"

text \<open>
  The names every plain object inherits from \<open>Object.prototype\<close>: \<open>o[k]\<close> on an object
  literal \<open>{}\<close> used as a dictionary is truthy for these names although \<open>o\<close> has no own
  property \<open>k\<close>.
\<close>

definition object_prototype_keys :: "string list" where
  "object_prototype_keys =
     [''constructor'', ''hasOwnProperty'', ''isPrototypeOf'', ''propertyIsEnumerable'',
      ''toLocaleString'', ''toString'', ''valueOf'', ''__proto__'',
      ''__defineGetter__'', ''__defineSetter__'', ''__lookupGetter__'', ''__lookupSetter__'']"

text \<open>The own property names of a value (of its wrapper object for a primitive).\<close>

fun own_keys :: "jsval \<Rightarrow> string list" where
  "own_keys (JObj kvs) = remdups (map fst kvs)"
| "own_keys (JArr xs) = index_keys (length xs) @ [''length'']"
| "own_keys (JStr s) = index_keys (length s) @ [''length'']"
| "own_keys v = []"

text \<open>
  Array indices among property names: the decimal numerals, without a leading zero, of the
  integers from 0 to \<open>2^32 - 2\<close>.
\<close>

definition digit_of_char :: "char \<Rightarrow> nat option" where
  "digit_of_char c = map_of (zip ''0123456789'' [0, 1, 2, 3, 4, 5, 6, 7, 8, 9]) c"

fun read_digits :: "nat \<Rightarrow> string \<Rightarrow> nat option" where
  "read_digits acc [] = Some acc"
| "read_digits acc (c # cs) =
     (case digit_of_char c of None \<Rightarrow> None | Some d \<Rightarrow> read_digits (10 * acc + d) cs)"

definition array_index :: "string \<Rightarrow> nat option" where
  "array_index k =
     (if k = [] then None
      else case read_digits 0 k of
             None \<Rightarrow> None
           | Some n \<Rightarrow> if show_nat n = k \<and> n < 4294967295 then Some n else None)"

definition index_value :: "string \<Rightarrow> nat" where
  "index_value k = (case array_index k of Some n \<Rightarrow> n | None \<Rightarrow> 0)"

text \<open>
  The own enumerable property names of a plain object in the order of enumeration: the
  array indices in ascending order, then the other names in insertion order.
\<close>

definition ordered_keys :: "string list \<Rightarrow> string list" where
  "ordered_keys ks =
     sort_key index_value (filter (\<lambda>k. array_index k \<noteq> None) ks)
     @ filter (\<lambda>k. array_index k = None) ks"

text \<open>
  \<open>for (const key in v)\<close>: the enumerable property names. \<open>length\<close> is not enumerable;
  nothing is enumerated for undefined, null, a number or a boolean.
\<close>

fun for_in_keys :: "jsval \<Rightarrow> string list" where
  "for_in_keys (JObj kvs) = ordered_keys (remdups (map fst kvs))"
| "for_in_keys (JArr xs) = index_keys (length xs)"
| "for_in_keys (JStr s) = index_keys (length s)"
| "for_in_keys v = []"

text \<open>
  \<open>v.k\<close> and \<open>v[k]\<close> for a value that is neither undefined nor null, for the names the
  loaders read from a definition (\<open>gltf2\<close>, \<open>fbx\<close>, \<open>animations\<close>, \<open>length\<close>, a key of
  \<open>animations\<close>, \<open>play\<close>, \<open>fadeTime\<close>, \<open>timeScale\<close>, \<open>weight\<close>, \<open>syncWith\<close>).
\<close>

fun prop_of :: "jsval \<Rightarrow> string \<Rightarrow> jsval" where
  "prop_of (JObj kvs) k = (case map_of kvs k of Some v \<Rightarrow> v | None \<Rightarrow> JUndefined)"
| "prop_of (JArr xs) k =
     (if k = ''length'' then JNum (int (length xs))
      else case find (\<lambda>i. show_nat i = k) [0..<length xs] of
             Some i \<Rightarrow> xs ! i | None \<Rightarrow> JUndefined)"
| "prop_of (JStr s) k =
     (if k = ''length'' then JNum (int (length s))
      else case find (\<lambda>i. show_nat i = k) [0..<length s] of
             Some i \<Rightarrow> JStr [s ! i] | None \<Rightarrow> JUndefined)"
| "prop_of v k = JUndefined"

text \<open>Reading a property of undefined or null throws a TypeError.\<close>

definition get_prop :: "jsval \<Rightarrow> string \<Rightarrow> error + jsval" where
  "get_prop v k = (if v = JUndefined \<or> v = JNull then Inl TypeError_read else Inr (prop_of v k))"

section \<open>canLoad\<close>

text \<open>
  \<open>v.hasOwnProperty(name)\<close>: the method is found on \<open>Object.prototype\<close> unless the value
  has an own property \<open>hasOwnProperty\<close>; no value of \<open>jsval\<close> is callable, so the call
  then throws.
\<close>

definition call_hasOwnProperty :: "jsval \<Rightarrow> string \<Rightarrow> error + jsval" where
  "call_hasOwnProperty v name =
     (if v = JUndefined \<or> v = JNull then Inl TypeError_read
      else if ''hasOwnProperty'' \<in> set (own_keys v) then Inl TypeError_call
      else Inr (JBool (name \<in> set (own_keys v))))"

text \<open>\<open>return definition && definition.hasOwnProperty('gltf2');\<close>\<close>

definition GLTF2_canLoad :: "jsval \<Rightarrow> error + jsval" where
  "GLTF2_canLoad definition =
     (if truthy definition then call_hasOwnProperty definition ''gltf2'' else Inr definition)"

text \<open>\<open>return definition && definition.hasOwnProperty('fbx');\<close>\<close>

definition FBX_canLoad :: "jsval \<Rightarrow> error + jsval" where
  "FBX_canLoad definition =
     (if truthy definition then call_hasOwnProperty definition ''fbx'' else Inr definition)"

section \<open>Scene graphs and recursiveDispose\<close>

text \<open>
  A node of the scene graph the 3D engine hands over: whether it has a \<open>dispose\<close> method,
  its geometry and material buffers when it has them, and its children.
\<close>

datatype node =
  Node (node_id: nat) (has_dispose: bool) (geometry: "nat option") (material: "nat option")
       (children: "node list")

datatype dispose_call = NodeDispose nat | GeometryDispose nat | MaterialDispose nat

text \<open>The calls \<open>recursiveDispose(node)\<close> makes, in order.\<close>

fun recursiveDispose :: "node \<Rightarrow> dispose_call list" where
  "recursiveDispose (Node i d g m cs) =
     (if d then [NodeDispose i] else [])
     @ (case g of Some b \<Rightarrow> [GeometryDispose b] | None \<Rightarrow> [])
     @ (case m of Some b \<Rightarrow> [MaterialDispose b] | None \<Rightarrow> [])
     @ concat (map recursiveDispose cs)"

text \<open>The nodes reachable from a root along \<open>children\<close>.\<close>

inductive_set reachable :: "node \<Rightarrow> node set" for root :: node where
  root: "root \<in> reachable root"
| child: "n \<in> reachable root \<Longrightarrow> c \<in> set (children n) \<Longrightarrow> c \<in> reachable root"

text \<open>What the engine's loader delivers: the scene and the animation clips (by name).\<close>

datatype clip = Clip (clip_name: string)

record model =
  scene_of :: node
  animations :: "clip list"

section \<open>The reference-counted cache\<close>

text \<open>
  \<open>RefCountCache\<close> (\<open>../Utils/RefCountCache\<close>) is not among the sources. A cache maps a
  URL to its entry and the number of references to it.
\<close>

type_synonym cache = "string \<rightharpoonup> (model \<times> nat)"

text \<open>Modelled from the spec: \<open>RefCountCache.has\<close>, whether the URL has an entry.\<close>

definition cache_has :: "cache \<Rightarrow> string \<Rightarrow> bool" where
  "cache_has c u = (c u \<noteq> None)"

text \<open>Modelled from the spec: \<open>RefCountCache.get\<close>, the entry of a URL that has one.\<close>

definition cache_get :: "cache \<Rightarrow> string \<Rightarrow> model option" where
  "cache_get c u = map_option fst (c u)"

text \<open>The reference count of a URL, 0 when it has no entry.\<close>

definition refcount :: "cache \<Rightarrow> string \<Rightarrow> nat" where
  "refcount c u = (case c u of None \<Rightarrow> 0 | Some (e, n) \<Rightarrow> n)"

text \<open>
  Modelled from the spec: \<open>RefCountCache.addReference\<close>, "reference count increments on
  reuse". A URL without an entry has no count to increment.
\<close>

definition addReference :: "cache \<Rightarrow> string \<Rightarrow> cache" where
  "addReference c u = (case c u of None \<Rightarrow> c | Some (e, n) \<Rightarrow> c(u \<mapsto> (e, Suc n)))"

text \<open>
  Modelled from the spec: \<open>RefCountCache.removeReference\<close>, "decrements on disposal";
  "when the count reaches zero the entry's scene graph is recursively disposed": the entry
  is dropped and the cleanup function given to the cache's constructor is called once.
  The result is the cache and the calls the cleanup made.
\<close>

definition removeReference ::
  "(string \<Rightarrow> model \<Rightarrow> dispose_call list) \<Rightarrow> cache \<Rightarrow> string \<Rightarrow> cache \<times> dispose_call list" where
  "removeReference cleanup c u =
     (case c u of
        None \<Rightarrow> (c, [])
      | Some (e, n) \<Rightarrow>
          if n \<le> 1 then (c(u := None), cleanup u e) else (c(u \<mapsto> (e, n - 1)), []))"

text \<open>
  The eviction callback both loaders construct their cache with:
  \<open>function(url, entry) { recursiveDispose(entry.scene); }\<close>
\<close>

definition evict :: "string \<Rightarrow> model \<Rightarrow> dispose_call list" where
  "evict u entry = recursiveDispose (scene_of entry)"

text \<open>The calls \<open>recursiveDispose\<close> makes for one node, its children apart.\<close>

definition own_calls :: "node \<Rightarrow> dispose_call set" where
  "own_calls n =
     (if has_dispose n then {NodeDispose (node_id n)} else {})
     \<union> (case geometry n of Some b \<Rightarrow> {GeometryDispose b} | None \<Rightarrow> {})
     \<union> (case material n of Some b \<Rightarrow> {MaterialDispose b} | None \<Rightarrow> {})"

section \<open>Mesh instances\<close>

text \<open>
  The animation engine is external. An action of a mixer is modelled by what the loader
  did to it: the clip \<open>clipAction\<close> was called with (\<open>None\<close> for undefined), the last
  value given for the fade-in time, the time scale and the weight (\<open>None\<close> while the loader
  has given none), the last target of \<open>syncWith\<close>, and whether the last of \<open>play()\<close>,
  \<open>stop()\<close> and \<open>stopAllAction()\<close> was \<open>play()\<close>.
\<close>

datatype sync_target = SyncAction nat | SyncInherited string

record action =
  clip_of :: "clip option"
  fadeIn_value :: "jsval option"
  timeScale_value :: "jsval option"
  weight_value :: "jsval option"
  synced :: "sync_target option"
  playing :: bool

definition new_action :: "clip option \<Rightarrow> action" where
  "new_action c = \<lparr>clip_of = c, fadeIn_value = None, timeScale_value = None,
                    weight_value = None, synced = None, playing = False\<rparr>"

text \<open>\<open>new THREE.AnimationMixer(root)\<close>, identified by its root.\<close>

datatype mixer = AnimationMixer node

text \<open>
  An instance. \<open>ident\<close> is the identity of the object, \<open>parent\<close> that of the parent
  view. \<open>scene = None\<close> is the absent (or deleted) \<open>scene\<close> property and \<open>mixer = None\<close>
  is \<open>null\<close>. \<open>actions\<close> holds the action objects the mixer has created, in order of
  creation; \<open>allAnimations\<close> maps a name to the position of its action there.
  \<open>activeAnimations\<close> is an object whose properties all have the value \<open>true\<close>: the
  list of its property names in insertion order.
\<close>

record mesh_instance =
  ident :: nat
  url :: string
  parent :: nat
  scene :: "node option"
  mixer :: "mixer option"
  actions :: "action list"
  timeStamp :: int
  activeAnimations :: "string list"
  allAnimations :: "string \<rightharpoonup> nat"
  animationParams :: jsval

text \<open>
  What a loader module does to the world outside its instances:
  \<^item> \<open>ConsoleError msg u\<close>: \<open>console.error(msg, u)\<close>;
  \<^item> \<open>LoaderLoad k u\<close>: \<open>loader.load(u, ...)\<close> with the callbacks of instance \<open>k\<close>;
  \<^item> \<open>FrameAddScene k\<close>: \<open>requestAnimationFrame\<close> of a callback that will call
    \<open>parent.add(this.scene)\<close> for instance \<open>k\<close>;
  \<^item> \<open>FrameAdd p n\<close>: \<open>requestAnimationFrame\<close> of a callback that will add node
    \<open>n\<close> to parent \<open>p\<close>;
  \<^item> \<open>ParentRemove p n\<close>: \<open>parent.remove(n)\<close>;
  \<^item> \<open>Disposed c\<close>: a dispose call on an engine object.
\<close>

datatype effect =
    ConsoleError string string
  | LoaderLoad nat string
  | FrameAddScene nat
  | FrameAdd nat node
  | ParentRemove nat node
  | Disposed dispose_call

text \<open>
  The state of a loader module: its cache, the own properties of its \<open>loadList\<close> object
  (lists of load callbacks, each identified by the instance it belongs to) and the effects
  so far.
\<close>

record world =
  cache :: cache
  loadList :: "string \<rightharpoonup> nat list"
  effects :: "effect list"

definition initial_world :: world where
  "initial_world = \<lparr>cache = Map.empty, loadList = Map.empty, effects = []\<rparr>"

text \<open>
  \<open>o[k]\<close> for an object literal used as a dictionary: an own property, or a property
  inherited from \<open>Object.prototype\<close> (a function or an object, truthy), or undefined.
\<close>

datatype 'a lookup = Own 'a | Inherited | Absent

definition dict_lookup :: "(string \<rightharpoonup> 'a) \<Rightarrow> string \<Rightarrow> 'a lookup" where
  "dict_lookup d k =
     (case d k of Some v \<Rightarrow> Own v
      | None \<Rightarrow> if k \<in> set object_prototype_keys then Inherited else Absent)"

text \<open>
  \<open>parseAnimationParams(definition)\<close>, the same in both loaders. It is called after
  \<open>definition.gltf2\<close> (\<open>definition.fbx\<close>) has been read, so the definition is neither
  undefined nor null.
\<close>

definition defaultParam :: jsval where
  "defaultParam = JObj [(''play'', JBool False), (''timeScale'', JNum 0)]"

definition parseAnimationParams :: "jsval \<Rightarrow> jsval" where
  "parseAnimationParams definition =
     (if truthy definition then js_or (prop_of definition ''animations'') defaultParam
      else defaultParam)"

text \<open>
  \<open>extractURL\<close> (\<open>../Utils/extractURL\<close>) is not among the sources; it is a parameter
  \<open>ex\<close> of the model, returning a string or nothing (undefined or null).
  \<open>extractURL(x) || ''\<close>:
\<close>

definition url_or_empty :: "(jsval \<Rightarrow> string option) \<Rightarrow> jsval \<Rightarrow> string" where
  "url_or_empty ex x = (case ex x of Some u \<Rightarrow> u | None \<Rightarrow> [])"

text \<open>\<open>!!v ? v : d\<close> and \<open>v ? v : d\<close>\<close>

definition or_default :: "jsval \<Rightarrow> jsval \<Rightarrow> jsval" where
  "or_default v d = (if truthy v then v else d)"

section \<open>The GLTF2 loader\<close>

text \<open>
  One pass of the loop of \<open>onLoad\<close> where assignment to the undeclared
  \<open>animationAction\<close> creates a global variable (non-strict code): the mixer creates the
  action of the clip, the loader sets it up, plays it and stores it under the clip's name.
\<close>

definition play_clip :: "jsval \<Rightarrow> jsval \<Rightarrow> jsval \<Rightarrow> clip \<Rightarrow> mesh_instance \<Rightarrow> mesh_instance" where
  "play_clip fadeIn timeScale weight c i =
     i\<lparr>actions := actions i @
          [(new_action (Some c))\<lparr>fadeIn_value := Some fadeIn, timeScale_value := Some timeScale,
                                 weight_value := Some weight, playing := True\<rparr>],
       allAnimations := (allAnimations i)(clip_name c \<mapsto> length (actions i))\<rparr>"

text \<open>
  \<open>onLoad\<close> of the GLTF2 constructor, for the instance \<open>i\<close> it closes over. The file is
  an ECMAScript module, and module code is strict; a build may also turn it into a
  non-strict script. \<open>strict\<close> says which. In strict code the assignment
  \<open>animationAction = this.mixer.clipAction(animation)\<close> evaluates its right-hand side
  and then throws a ReferenceError, \<open>animationAction\<close> being declared nowhere.
  The result is the exception thrown, if any, and the instance and world as the callback
  leaves them.
\<close>

definition GLTF2_onLoad ::
  "bool \<Rightarrow> model \<Rightarrow> mesh_instance \<times> world \<Rightarrow> error option \<times> mesh_instance \<times> world" where
  "GLTF2_onLoad strict gltf iw =
     (let i = fst iw; w = snd iw;
          w1 = (if cache_has (cache w) (url i)
                then w\<lparr>cache := addReference (cache w) (url i)\<rparr> else w);
          i1 = i\<lparr>scene := Some (scene_of gltf), mixer := Some (AnimationMixer (scene_of gltf))\<rparr>;
          params = animationParams i1;
          w2 = w1\<lparr>effects := effects w1 @ [FrameAddScene (ident i)]\<rparr>
      in case get_prop params ''play'' of
           Inl e \<Rightarrow> (Some e, i1, w1)
         | Inr shouldPlayAnimation \<Rightarrow>
             if truthy shouldPlayAnimation then
               (let fadeIn = or_default (prop_of params ''fadeTime'') (JNum 0);
                    timeScale = or_default (prop_of params ''timeScale'') (JNum 1);
                    weight = or_default (prop_of params ''weight'') (JNum 1)
                in case animations gltf of
                     [] \<Rightarrow> (None, i1, w2)
                   | c # cs \<Rightarrow>
                       if strict
                       then (Some ReferenceError,
                             i1\<lparr>actions := actions i1 @ [new_action (Some c)]\<rparr>, w1)
                       else (None, fold (play_clip fadeIn timeScale weight) (c # cs) i1, w2))
             else (None, i1, w2))"

text \<open>The two tests of the constructor before it asks the engine to load.\<close>

definition cache_hit :: "world \<Rightarrow> string \<Rightarrow> bool" where
  "cache_hit w u = cache_has (cache w) u"

definition download_pending :: "world \<Rightarrow> string \<Rightarrow> bool" where
  "download_pending w u = (dict_lookup (loadList w) u \<noteq> Absent)"

datatype branch = CacheHit | PendingDownload | NetworkLoad

text \<open>
  \<open>new GLTF2MeshInstance(definition, parent)\<close> for the object \<open>idn\<close>: the exception
  thrown, or the branch taken and the instance, and the world afterwards.
\<close>

definition GLTF2_constructor ::
  "(jsval \<Rightarrow> string option) \<Rightarrow> bool \<Rightarrow> nat \<Rightarrow> jsval \<Rightarrow> nat \<Rightarrow> world
     \<Rightarrow> (error + branch \<times> mesh_instance) \<times> world" where
  "GLTF2_constructor ex strict idn definition par w =
     (case get_prop definition ''gltf2'' of
        Inl e \<Rightarrow> (Inl e, w)
      | Inr g \<Rightarrow>
          (let i = \<lparr>ident = idn, url = url_or_empty ex g, parent = par, scene = None,
                    mixer = None, actions = [], timeStamp = - 1, activeAnimations = [],
                    allAnimations = Map.empty,
                    animationParams = parseAnimationParams definition\<rparr>
           in if cache_hit w (url i) then
                (case cache_get (cache w) (url i) of
                   None \<Rightarrow> (Inl TypeError_read, w)
                 | Some gltf \<Rightarrow>
                     (case GLTF2_onLoad strict gltf (i, w) of
                        (Some e, i1, w1) \<Rightarrow> (Inl e, w1)
                      | (None, i1, w1) \<Rightarrow> (Inr (CacheHit, i1), w1)))
              else if download_pending w (url i) then
                (case loadList w (url i) of
                   Some callbacks \<Rightarrow>
                     (Inr (PendingDownload, i),
                      w\<lparr>loadList := (loadList w)(url i \<mapsto> callbacks @ [idn])\<rparr>)
                 | None \<Rightarrow> (Inl TypeError_call, w))
              else (Inr (NetworkLoad, i),
                    w\<lparr>effects := effects w @ [LoaderLoad idn (url i)]\<rparr>)))"

text \<open>The error callback given to \<open>loader.load\<close> by the constructor of instance \<open>i\<close>.\<close>

definition GLTF2_onError :: "mesh_instance \<times> world \<Rightarrow> error option \<times> mesh_instance \<times> world" where
  "GLTF2_onError iw =
     (let i = fst iw; w = snd iw
      in (None, i, w\<lparr>effects := effects w @ [ConsoleError ''failed to load GLTF'' (url i)],
                      loadList := (loadList w)(url i := None)\<rparr>))"

section \<open>updateAnimation, update and dispose\<close>

text \<open>ToString, which turns \<open>params.syncWith\<close> into a property name.\<close>

definition show_int :: "int \<Rightarrow> string" where
  "show_int n = (if n < 0 then CHR ''-'' # show_nat (nat (- n)) else show_nat (nat n))"

fun join_comma :: "string list \<Rightarrow> string" where
  "join_comma [] = []"
| "join_comma [x] = x"
| "join_comma (x # y # zs) = x @ '','' @ join_comma (y # zs)"

fun js_to_string :: "jsval \<Rightarrow> string" where
  "js_to_string JUndefined = ''undefined''"
| "js_to_string JNull = ''null''"
| "js_to_string (JBool b) = (if b then ''true'' else ''false'')"
| "js_to_string (JNum n) = show_int n"
| "js_to_string JNaN = ''NaN''"
| "js_to_string (JStr s) = s"
| "js_to_string (JArr xs) =
     join_comma (map (\<lambda>x. if x = JUndefined \<or> x = JNull then [] else js_to_string x) xs)"
| "js_to_string (JObj kvs) = ''[object Object]''"

text \<open>
  The body of \<open>if (params) { ... }\<close> in \<open>updateAnimation\<close>, on the action \<open>anim\<close>:
  \<open>fadeIn\<close>, \<open>setEffectiveTimeScale\<close>, \<open>setEffectiveWeight\<close> and, when
  \<open>params.syncWith && this.allAnimations[params.syncWith]\<close>, \<open>syncWith\<close>.
\<close>

definition apply_params :: "jsval \<Rightarrow> (string \<rightharpoonup> nat) \<Rightarrow> action \<Rightarrow> action" where
  "apply_params params all anim =
     (let a = anim\<lparr>fadeIn_value := Some (or_default (prop_of params ''fadeTime'') (JNum 0)),
                   timeScale_value := Some (or_default (prop_of params ''timeScale'') (JNum 1)),
                   weight_value := Some (or_default (prop_of params ''weight'') (JNum 1))\<rparr>;
          syncWith = prop_of params ''syncWith''
      in if truthy syncWith then
           (case dict_lookup all (js_to_string syncWith) of
              Own h \<Rightarrow> a\<lparr>synced := Some (SyncAction h)\<rparr>
            | Inherited \<Rightarrow> a\<lparr>synced := Some (SyncInherited (js_to_string syncWith))\<rparr>
            | Absent \<Rightarrow> a)
         else a)"

text \<open>\<open>const animName = 'animation_' + key;\<close>\<close>

definition animName :: "string \<Rightarrow> string" where
  "animName key = ''animation_'' @ key"

text \<open>
  One pass of \<open>for (const key in definition.animations)\<close>, on the instance and
  \<open>newActiveAnimations\<close>. The names looked up in \<open>allAnimations\<close> start with
  \<open>animation_\<close>, so none of them is inherited. An action is reached through its
  position \<open>h\<close> in \<open>actions\<close>.
\<close>

definition request_key ::
  "jsval \<Rightarrow> string \<Rightarrow> mesh_instance \<times> string list \<Rightarrow> mesh_instance \<times> string list" where
  "request_key anims key st =
     (let i = fst st; newActiveAnimations = snd st;
          i1 = (case allAnimations i (animName key) of
                  None \<Rightarrow> i
                | Some h \<Rightarrow>
                    (let params = prop_of anims key;
                         acts1 = (if truthy params
                                  then (actions i)[h := apply_params params (allAnimations i) (actions i ! h)]
                                  else actions i);
                         acts2 = (if animName key \<notin> set (activeAnimations i)
                                  then acts1[h := (acts1 ! h)\<lparr>playing := True\<rparr>]
                                  else acts1)
                     in i\<lparr>actions := acts2\<rparr>))
      in (i1\<lparr>activeAnimations := removeAll (animName key) (activeAnimations i1)\<rparr>,
          if animName key \<in> set newActiveAnimations then newActiveAnimations
          else newActiveAnimations @ [animName key]))"

text \<open>
  One pass of \<open>for (const key in this.activeAnimations)\<close>, the leftover animations. The
  names recorded in \<open>activeAnimations\<close> were built as \<open>animation_\<close> + key, so the
  lookup is again that of an own property.
\<close>

definition stop_key :: "string \<Rightarrow> mesh_instance \<Rightarrow> mesh_instance" where
  "stop_key key i =
     (case allAnimations i key of
        None \<Rightarrow> i
      | Some h \<Rightarrow> i\<lparr>actions := (actions i)[h := (actions i ! h)\<lparr>playing := False\<rparr>]\<rparr>)"

text \<open>\<open>mixer.stopAllAction()\<close>\<close>

definition stopAllAction :: "action list \<Rightarrow> action list" where
  "stopAllAction acts = map (\<lambda>a. a\<lparr>playing := False\<rparr>) acts"

text \<open>\<open>updateAnimation(definition)\<close>, word for word the same in both loaders.\<close>

definition updateAnimation :: "jsval \<Rightarrow> mesh_instance \<Rightarrow> error + mesh_instance" where
  "updateAnimation definition i =
     (case get_prop definition ''animations'' of
        Inl e \<Rightarrow> Inl e
      | Inr anims \<Rightarrow>
          if \<not> truthy anims \<or> prop_of anims ''length'' = JNum 0 then
            (case mixer i of
               None \<Rightarrow> Inr i
             | Some m \<Rightarrow> Inr (i\<lparr>activeAnimations := [], actions := stopAllAction (actions i)\<rparr>))
          else
            (let st = fold (request_key anims) (for_in_keys anims) (i, []);
                 i2 = fold stop_key (activeAnimations (fst st)) (fst st)
             in Inr (i2\<lparr>activeAnimations := snd st\<rparr>)))"

text \<open>
  \<open>update(definition)\<close> of the GLTF2 instance: the exception thrown, or the boolean
  returned and the instance.
\<close>

definition GLTF2_update ::
  "(jsval \<Rightarrow> string option) \<Rightarrow> jsval \<Rightarrow> mesh_instance \<Rightarrow> error + bool \<times> mesh_instance" where
  "GLTF2_update ex definition i =
     (case get_prop definition ''gltf2'' of
        Inl e \<Rightarrow> Inl e
      | Inr g \<Rightarrow>
          if url_or_empty ex g \<noteq> url i then Inr (False, i)
          else (case updateAnimation definition i of
                  Inl e \<Rightarrow> Inl e
                | Inr i1 \<Rightarrow> Inr (True, i1)))"

text \<open>\<open>dispose()\<close> of the GLTF2 instance, on \<open>gltfStateCache\<close>.\<close>

definition GLTF2_dispose :: "mesh_instance \<times> world \<Rightarrow> mesh_instance \<times> world" where
  "GLTF2_dispose iw =
     (let i = fst iw; w = snd iw
      in case scene i of
           None \<Rightarrow> (i, w)
         | Some sc \<Rightarrow>
             (let r = removeReference evict (cache w) (url i)
              in (i\<lparr>scene := None\<rparr>,
                  w\<lparr>cache := fst r,
                    effects := effects w @ map Disposed (snd r) @ [ParentRemove (parent i) sc]\<rparr>)))"

section \<open>The FBX loader\<close>

text \<open>
  \<open>onLoad\<close> of the FBX constructor. The loaded \<open>fbx\<close> is itself the root node
  (\<open>scene_of\<close>) and carries the clips. \<open>fbx.animations[0]\<close> is undefined (\<open>None\<close>) when
  there is no clip. The settings are assigned to the properties \<open>fadeIn\<close>,
  \<open>timeScale\<close> and \<open>weight\<close> of the action.
\<close>

definition FBX_onLoad :: "model \<Rightarrow> mesh_instance \<times> world \<Rightarrow> error option \<times> mesh_instance \<times> world" where
  "FBX_onLoad fbx iw =
     (let i = fst iw; w = snd iw;
          i1 = i\<lparr>mixer := Some (AnimationMixer (scene_of fbx))\<rparr>;
          params = animationParams i1;
          animationAction = new_action (case animations fbx of [] \<Rightarrow> None | c # cs \<Rightarrow> Some c);
          i2 = i1\<lparr>actions := actions i1 @ [animationAction]\<rparr>;
          w1 = w\<lparr>effects := effects w @ [FrameAdd (parent i) (scene_of fbx)]\<rparr>
      in case get_prop params ''play'' of
           Inl e \<Rightarrow> (Some e, i2, w)
         | Inr play \<Rightarrow>
             if truthy play then
               (let fadeIn = or_default (prop_of params ''fadeTime'') (JNum 0);
                    timeScale = or_default (prop_of params ''timeScale'') (JNum 1);
                    weight = or_default (prop_of params ''weight'') (JNum 1)
                in (None,
                    i1\<lparr>actions := actions i1 @
                         [animationAction\<lparr>fadeIn_value := Some fadeIn,
                                          timeScale_value := Some timeScale,
                                          weight_value := Some weight, playing := True\<rparr>]\<rparr>,
                    w1))
             else (None, i2, w1))"

text \<open>\<open>new FBXMeshInstance(definition, parent)\<close> for the object \<open>idn\<close>.\<close>

definition FBX_constructor ::
  "(jsval \<Rightarrow> string option) \<Rightarrow> nat \<Rightarrow> jsval \<Rightarrow> nat \<Rightarrow> world
     \<Rightarrow> (error + branch \<times> mesh_instance) \<times> world" where
  "FBX_constructor ex idn definition par w =
     (case get_prop definition ''fbx'' of
        Inl e \<Rightarrow> (Inl e, w)
      | Inr f \<Rightarrow>
          (let i = \<lparr>ident = idn, url = url_or_empty ex f, parent = par, scene = None,
                    mixer = None, actions = [], timeStamp = - 1, activeAnimations = [],
                    allAnimations = Map.empty,
                    animationParams = parseAnimationParams definition\<rparr>
           in (Inr (NetworkLoad, i), w\<lparr>effects := effects w @ [LoaderLoad idn (url i)]\<rparr>)))"

definition FBX_onError :: "mesh_instance \<times> world \<Rightarrow> error option \<times> mesh_instance \<times> world" where
  "FBX_onError iw =
     (let i = fst iw; w = snd iw
      in (None, i, w\<lparr>effects := effects w @ [ConsoleError ''failed to load FBX'' (url i)],
                      loadList := (loadList w)(url i := None)\<rparr>))"

text \<open>
  \<open>update(definition)\<close> of the FBX instance. The source reads \<open>definition.gltf2\<close> here,
  as the GLTF2 instance does.
\<close>

definition FBX_update ::
  "(jsval \<Rightarrow> string option) \<Rightarrow> jsval \<Rightarrow> mesh_instance \<Rightarrow> error + bool \<times> mesh_instance" where
  "FBX_update ex definition i =
     (case get_prop definition ''gltf2'' of
        Inl e \<Rightarrow> Inl e
      | Inr g \<Rightarrow>
          if url_or_empty ex g \<noteq> url i then Inr (False, i)
          else (case updateAnimation definition i of
                  Inl e \<Rightarrow> Inl e
                | Inr i1 \<Rightarrow> Inr (True, i1)))"

text \<open>\<open>dispose()\<close> of the FBX instance, on \<open>fbxStateCache\<close>.\<close>

definition FBX_dispose :: "mesh_instance \<times> world \<Rightarrow> mesh_instance \<times> world" where
  "FBX_dispose iw =
     (let i = fst iw; w = snd iw
      in case scene i of
           None \<Rightarrow> (i, w)
         | Some sc \<Rightarrow>
             (let r = removeReference evict (cache w) (url i)
              in (i\<lparr>scene := None\<rparr>,
                  w\<lparr>cache := fst r,
                    effects := effects w @ map Disposed (snd r) @ [ParentRemove (parent i) sc]\<rparr>)))"

section \<open>Runs of a loader module\<close>

text \<open>
  What can happen to a loader module: \<open>createInstance(definition, parent)\<close>, the engine
  calling the load or the error callback of an instance, and the methods \<open>update\<close> and
  \<open>dispose\<close> of an instance. Instances are numbered in the order of their construction.
\<close>

datatype event =
    Construct jsval nat
  | LoadDone nat model
  | LoadFailed nat
  | Update nat jsval
  | Dispose nat

record system =
  instances :: "mesh_instance list"
  world_of :: world

definition initial_system :: system where
  "initial_system = \<lparr>instances = [], world_of = initial_world\<rparr>"

text \<open>A callback or method of instance \<open>k\<close>; nothing happens when there is no such instance.\<close>

definition on_instance ::
  "nat \<Rightarrow> (mesh_instance \<times> world \<Rightarrow> mesh_instance \<times> world) \<Rightarrow> system \<Rightarrow> system" where
  "on_instance k f s =
     (if k < length (instances s)
      then (let r = f (instances s ! k, world_of s)
            in s\<lparr>instances := (instances s)[k := fst r], world_of := snd r\<rparr>)
      else s)"

text \<open>
  One event of the GLTF2 module. An exception leaves the state as it was when it was thrown;
  a constructor that throws yields no instance.
\<close>

fun GLTF2_step :: "(jsval \<Rightarrow> string option) \<Rightarrow> bool \<Rightarrow> system \<Rightarrow> event \<Rightarrow> system" where
  "GLTF2_step ex strict s (Construct d par) =
     (case GLTF2_constructor ex strict (length (instances s)) d par (world_of s) of
        (Inl e, w) \<Rightarrow> s\<lparr>world_of := w\<rparr>
      | (Inr (b, i), w) \<Rightarrow> s\<lparr>instances := instances s @ [i], world_of := w\<rparr>)"
| "GLTF2_step ex strict s (LoadDone k gltf) = on_instance k (\<lambda>iw. snd (GLTF2_onLoad strict gltf iw)) s"
| "GLTF2_step ex strict s (LoadFailed k) = on_instance k (\<lambda>iw. snd (GLTF2_onError iw)) s"
| "GLTF2_step ex strict s (Update k d) =
     on_instance k (\<lambda>iw. case GLTF2_update ex d (fst iw) of
                            Inl e \<Rightarrow> iw | Inr r \<Rightarrow> (snd r, snd iw)) s"
| "GLTF2_step ex strict s (Dispose k) = on_instance k GLTF2_dispose s"

definition GLTF2_run :: "(jsval \<Rightarrow> string option) \<Rightarrow> bool \<Rightarrow> event list \<Rightarrow> system" where
  "GLTF2_run ex strict evs = foldl (GLTF2_step ex strict) initial_system evs"

fun FBX_step :: "(jsval \<Rightarrow> string option) \<Rightarrow> system \<Rightarrow> event \<Rightarrow> system" where
  "FBX_step ex s (Construct d par) =
     (case FBX_constructor ex (length (instances s)) d par (world_of s) of
        (Inl e, w) \<Rightarrow> s\<lparr>world_of := w\<rparr>
      | (Inr (b, i), w) \<Rightarrow> s\<lparr>instances := instances s @ [i], world_of := w\<rparr>)"
| "FBX_step ex s (LoadDone k fbx) = on_instance k (\<lambda>iw. snd (FBX_onLoad fbx iw)) s"
| "FBX_step ex s (LoadFailed k) = on_instance k (\<lambda>iw. snd (FBX_onError iw)) s"
| "FBX_step ex s (Update k d) =
     on_instance k (\<lambda>iw. case FBX_update ex d (fst iw) of
                            Inl e \<Rightarrow> iw | Inr r \<Rightarrow> (snd r, snd iw)) s"
| "FBX_step ex s (Dispose k) = on_instance k FBX_dispose s"


text \<open>
  Modelled from the spec: the URL-extraction utility (\<open>extractURL\<close>, absent from the
  sources), as far as the concrete inputs below need one: a string is its own URL, and no
  other value has a URL.
\<close>

definition extractURL :: "jsval \<Rightarrow> string option" where
  "extractURL x = (case x of JStr s \<Rightarrow> Some s | _ \<Rightarrow> None)"

section \<open>Predicates of the properties\<close>

text \<open>Neither the cache nor \<open>loadList\<close> has an entry.\<close>

definition nothing_cached :: "world \<Rightarrow> bool" where
  "nothing_cached w = (cache w = Map.empty \<and> loadList w = Map.empty)"

text \<open>
  An action that has been set up from \<open>params\<close> and played: each of the three values is
  the one of \<open>params\<close> when that is truthy and 0, 1, 1 otherwise.
\<close>

definition played_action :: "jsval \<Rightarrow> clip option \<Rightarrow> action" where
  "played_action params c =
     \<lparr>clip_of = c,
      fadeIn_value = Some (if truthy (prop_of params ''fadeTime'')
                           then prop_of params ''fadeTime'' else JNum 0),
      timeScale_value = Some (if truthy (prop_of params ''timeScale'')
                              then prop_of params ''timeScale'' else JNum 1),
      weight_value = Some (if truthy (prop_of params ''weight'')
                           then prop_of params ''weight'' else JNum 1),
      synced = None, playing = True\<rparr>"

text \<open>
  The state of the animations of an instance is coherent: every name of \<open>allAnimations\<close>
  stands for an action of the mixer, different names for different actions, the action
  of a name recorded in \<open>activeAnimations\<close> is playing, and the names recorded there were
  built as \<open>animation_\<close> + key.
\<close>

definition wf_instance :: "mesh_instance \<Rightarrow> bool" where
  "wf_instance i =
     ((\<forall>n h. allAnimations i n = Some h \<longrightarrow> h < length (actions i))
      \<and> inj_on (allAnimations i) (dom (allAnimations i))
      \<and> (\<forall>n\<in>set (activeAnimations i). \<forall>h. allAnimations i n = Some h \<longrightarrow>
            playing (actions i ! h))
      \<and> (\<forall>n\<in>set (activeAnimations i). \<exists>k. n = animName k))"






section \<open>Concrete inputs\<close>

definition example_scene :: node where
  "example_scene = Node 0 True (Some 1) None [Node 2 False None (Some 3) []]"

definition example_model :: model where
  "example_model = \<lparr>scene_of = example_scene,
                     animations = [Clip ''animation_walk'', Clip ''animation_run'']\<rparr>"

text \<open>An instance as the constructors leave it while its load is pending.\<close>

definition pending_instance :: mesh_instance where
  "pending_instance =
     \<lparr>ident = 0, url = ''model.gltf'', parent = 7, scene = None, mixer = None, actions = [],
      timeStamp = - 1, activeAnimations = [], allAnimations = Map.empty,
      animationParams = defaultParam\<rparr>"

text \<open>A world whose cache holds one entry, for the URL \<open>u\<close>, with one reference.\<close>

definition cached_world :: "string \<Rightarrow> world" where
  "cached_world u = initial_world\<lparr>cache := [u \<mapsto> (example_model, 1)]\<rparr>"

definition fbx_definition :: jsval where
  "fbx_definition =
     JObj [(''fbx'', JStr ''model.fbx''), (''animations'', JObj [(''walk'', JObj [])])]"

definition gltf2_definition :: jsval where
  "gltf2_definition =
     JObj [(''gltf2'', JStr ''model.gltf''), (''animations'', JObj [(''walk'', JObj [])])]"

text \<open>The instances the constructors build from these two definitions.\<close>

definition fbx_instance :: mesh_instance where
  "fbx_instance =
     \<lparr>ident = 0, url = ''model.fbx'', parent = 7, scene = None, mixer = None, actions = [],
      timeStamp = - 1, activeAnimations = [], allAnimations = Map.empty,
      animationParams = JObj [(''walk'', JObj [])]\<rparr>"

definition gltf2_instance :: mesh_instance where
  "gltf2_instance =
     \<lparr>ident = 0, url = ''model.gltf'', parent = 7, scene = None, mixer = None, actions = [],
      timeStamp = - 1, activeAnimations = [], allAnimations = Map.empty,
      animationParams = JObj [(''walk'', JObj [])]\<rparr>"



text \<open>A GLTF2 definition that asks for playback, and two definitions for its update.\<close>

definition playing_gltf2_definition :: jsval where
  "playing_gltf2_definition =
     JObj [(''gltf2'', JStr ''model.gltf''), (''animations'', JObj [(''play'', JBool True)])]"

definition walk_definition :: jsval where
  "walk_definition =
     JObj [(''gltf2'', JStr ''model.gltf''),
           (''animations'', JObj [(''walk'', JObj [(''weight'', JNum 0)])])]"

definition empty_definition :: jsval where
  "empty_definition = JObj [(''gltf2'', JStr ''model.gltf''), (''animations'', JObj [])]"

text \<open>
  The instance constructed from \<open>playing_gltf2_definition\<close> once \<open>example_model\<close> has
  been loaded in non-strict code: both clips are playing.
\<close>

definition loaded_instance :: mesh_instance where
  "loaded_instance =
     \<lparr>ident = 0, url = ''model.gltf'', parent = 7, scene = Some example_scene,
      mixer = Some (AnimationMixer example_scene),
      actions = [played_action (JObj [(''play'', JBool True)]) (Some (Clip ''animation_walk'')),
                 played_action (JObj [(''play'', JBool True)]) (Some (Clip ''animation_run''))],
      timeStamp = - 1, activeAnimations = [],
      allAnimations = [''animation_walk'' \<mapsto> 0, ''animation_run'' \<mapsto> 1],
      animationParams = JObj [(''play'', JBool True)]\<rparr>"





section \<open>Properties\<close>

subsection \<open>Enumeration of property names\<close>

lemma set_ordered_keys: "set (ordered_keys ks) = set ks"
  by (auto simp add: ordered_keys_def)


lemma ordered_keys_no_index: "\<forall>k\<in>set ks. array_index k = None \<Longrightarrow> ordered_keys ks = ks"
  by (simp add: ordered_keys_def filter_id_conv)

lemma array_index_no_digit: "digit_of_char c = None \<Longrightarrow> array_index (c # cs) = None"
  by (simp add: array_index_def)

subsection \<open>canLoad\<close>

text \<open>
  On a truthy definition that does not shadow \<open>hasOwnProperty\<close>, \<open>canLoad\<close> is the
  boolean that tells whether the definition has the own property; a falsy definition is
  returned as it is.
\<close>

lemma canLoad_truthy:
  assumes "truthy d" and "''hasOwnProperty'' \<notin> set (own_keys d)"
  shows "GLTF2_canLoad d = Inr (JBool (''gltf2'' \<in> set (own_keys d)))"
    and "FBX_canLoad d = Inr (JBool (''fbx'' \<in> set (own_keys d)))"
  using assms
  by (cases d; simp add: GLTF2_canLoad_def FBX_canLoad_def call_hasOwnProperty_def)+

lemma canLoad_falsy:
  "\<not> truthy d \<Longrightarrow> GLTF2_canLoad d = Inr d \<and> FBX_canLoad d = Inr d"
  by (simp add: GLTF2_canLoad_def FBX_canLoad_def)

text \<open>
  C7 (canLoad returns a boolean for every input, false for null and undefined).
  The method is declared \<open>canLoad(definition: any): boolean\<close>, yet for a falsy definition
  the conjunction \<open>definition && ...\<close> returns the definition itself: \<open>canLoad(null)\<close> is
  null and \<open>canLoad(undefined)\<close> is undefined in both loaders, neither of them the boolean
  false.
\<close>

theorem canLoad_null_not_boolean:
  "GLTF2_canLoad JNull = Inr JNull \<and> GLTF2_canLoad JUndefined = Inr JUndefined
   \<and> FBX_canLoad JNull = Inr JNull \<and> FBX_canLoad JUndefined = Inr JUndefined
   \<and> GLTF2_canLoad JNull \<noteq> Inr (JBool False) \<and> FBX_canLoad JUndefined \<noteq> Inr (JBool False)"
  by (simp add: GLTF2_canLoad_def FBX_canLoad_def)

subsection \<open>recursiveDispose\<close>

lemma reachable_trans: "x \<in> reachable c \<Longrightarrow> c \<in> reachable r \<Longrightarrow> x \<in> reachable r"
  by (induction rule: reachable.induct) (auto intro: reachable.child)

lemma reachable_Node:
  "reachable (Node i d g m cs) = insert (Node i d g m cs) (\<Union>c\<in>set cs. reachable c)"
proof (rule set_eqI, rule iffI)
  fix x assume "x \<in> reachable (Node i d g m cs)"
  then show "x \<in> insert (Node i d g m cs) (\<Union>c\<in>set cs. reachable c)"
  proof (induction rule: reachable.induct)
    case root
    then show ?case by simp
  next
    case (child n c)
    then show ?case by (auto intro: reachable.root reachable.child)
  qed
next
  fix x assume "x \<in> insert (Node i d g m cs) (\<Union>c\<in>set cs. reachable c)"
  then show "x \<in> reachable (Node i d g m cs)"
  proof
    assume "x = Node i d g m cs" then show ?thesis by (simp add: reachable.root)
  next
    assume "x \<in> (\<Union>c\<in>set cs. reachable c)"
    then obtain c where c: "c \<in> set cs" "x \<in> reachable c" by blast
    have "c \<in> reachable (Node i d g m cs)"
      using reachable.child [OF reachable.root, of c "Node i d g m cs"] c(1) by simp
    with c(2) show ?thesis by (rule reachable_trans)
  qed
qed

lemma recursiveDispose_own_calls:
  "set (recursiveDispose root) = (\<Union>n\<in>reachable root. own_calls n)"
proof (induction root)
  case (Node i d g m cs)
  have "set (recursiveDispose (Node i d g m cs)) =
          own_calls (Node i d g m cs) \<union> (\<Union>c\<in>set cs. set (recursiveDispose c))"
    by (auto simp: own_calls_def split: option.splits)
  also have "\<dots> = own_calls (Node i d g m cs) \<union> (\<Union>c\<in>set cs. \<Union>n\<in>reachable c. own_calls n)"
    using Node.IH by simp
  also have "\<dots> = (\<Union>n\<in>reachable (Node i d g m cs). own_calls n)"
    unfolding reachable_Node by blast
  finally show ?case .
qed

text \<open>
  C8. The eviction callback of the cache disposes the scene graph of the evicted entry:
  the calls it makes are exactly the \<open>dispose\<close> of every node reachable from the scene
  root that has the method, and the \<open>dispose\<close> of the geometry and of the material of
  every reachable node that has one.
\<close>

theorem evict_disposes_scene_graph:
  "set (evict u entry) =
     {NodeDispose (node_id n) | n. n \<in> reachable (scene_of entry) \<and> has_dispose n}
   \<union> {GeometryDispose b | n b. n \<in> reachable (scene_of entry) \<and> geometry n = Some b}
   \<union> {MaterialDispose b | n b. n \<in> reachable (scene_of entry) \<and> material n = Some b}"
  unfolding evict_def recursiveDispose_own_calls
  by (auto simp: own_calls_def split: option.splits if_splits)

theorem evict_disposes_scene_graph_witness:
  "Node 2 False None (Some 3) [] \<in> reachable (scene_of example_model)
   \<and> MaterialDispose 3 \<in> set (evict ''model.gltf'' example_model)
   \<and> evict ''model.gltf'' example_model = [NodeDispose 0, GeometryDispose 1, MaterialDispose 3]"
proof -
  have r: "Node 2 False None (Some 3) [] \<in> reachable (scene_of example_model)"
    by (simp add: example_model_def example_scene_def reachable_Node)
  have "MaterialDispose 3 \<in> set (evict ''model.gltf'' example_model)"
    unfolding evict_disposes_scene_graph [of "''model.gltf''" example_model]
    using r by force
  moreover have "evict ''model.gltf'' example_model
                   = [NodeDispose 0, GeometryDispose 1, MaterialDispose 3]"
    by (simp add: evict_def example_model_def example_scene_def)
  ultimately show ?thesis using r by simp
qed

subsection \<open>dispose\<close>

text \<open>
  C9. \<open>dispose()\<close> changes nothing when the instance has no scene, and a second
  \<open>dispose()\<close> changes nothing after the first: no reference is removed and the parent is
  not asked to remove anything again. Both loaders.
\<close>

theorem dispose_noop_idempotent:
  "(scene i = None \<longrightarrow> GLTF2_dispose (i, w) = (i, w) \<and> FBX_dispose (i, w) = (i, w))
   \<and> GLTF2_dispose (GLTF2_dispose (i, w)) = GLTF2_dispose (i, w)
   \<and> FBX_dispose (FBX_dispose (i, w)) = FBX_dispose (i, w)"
  by (simp add: GLTF2_dispose_def FBX_dispose_def Let_def split: option.splits)

theorem dispose_noop_idempotent_witness:
  "scene pending_instance = None
   \<and> GLTF2_dispose (pending_instance, initial_world) = (pending_instance, initial_world)
   \<and> FBX_dispose (pending_instance, initial_world) = (pending_instance, initial_world)"
  using dispose_noop_idempotent [of pending_instance initial_world]
  by (simp add: pending_instance_def)

subsection \<open>Load failure\<close>

text \<open>
  C5. The error callback of a load logs the failure and deletes the \<open>loadList\<close> record
  of the URL; it throws nothing and leaves the instance, and every instance of the module,
  as it was while the load was pending. Both loaders.
\<close>

theorem onError_keeps_instance:
  "fst (GLTF2_onError (i, w)) = None \<and> fst (snd (GLTF2_onError (i, w))) = i
   \<and> loadList (snd (snd (GLTF2_onError (i, w)))) (url i) = None
   \<and> effects (snd (snd (GLTF2_onError (i, w))))
       = effects w @ [ConsoleError ''failed to load GLTF'' (url i)]
   \<and> cache (snd (snd (GLTF2_onError (i, w)))) = cache w
   \<and> instances (GLTF2_step ex strict s (LoadFailed k)) = instances s
   \<and> fst (FBX_onError (i, w)) = None \<and> fst (snd (FBX_onError (i, w))) = i
   \<and> loadList (snd (snd (FBX_onError (i, w)))) (url i) = None
   \<and> effects (snd (snd (FBX_onError (i, w))))
       = effects w @ [ConsoleError ''failed to load FBX'' (url i)]
   \<and> cache (snd (snd (FBX_onError (i, w)))) = cache w
   \<and> instances (FBX_step ex s (LoadFailed k)) = instances s"
  by (simp add: GLTF2_onError_def FBX_onError_def on_instance_def Let_def)

subsection \<open>The FBX load callback\<close>

text \<open>
  C10. The FBX load callback always asks the mixer for the action of
  \<open>fbx.animations[0]\<close>, whether or not the definition asks for playback: the instance has
  one more action afterwards, and its clip is the first clip of the model when the model
  has one and undefined when it has none.
\<close>

theorem FBX_onLoad_reads_first_animation:
  "length (actions (fst (snd (FBX_onLoad fbx (i, w))))) = Suc (length (actions i))
   \<and> clip_of (last (actions (fst (snd (FBX_onLoad fbx (i, w))))))
       = (if animations fbx = [] then None else Some (animations fbx ! 0))"
  by (auto simp add: FBX_onLoad_def Let_def new_action_def split: sum.splits list.splits)

theorem FBX_onLoad_reads_first_animation_witness:
  "clip_of (last (actions (fst (snd (FBX_onLoad example_model (pending_instance, initial_world))))))
     = Some (Clip ''animation_walk'')
   \<and> clip_of (last (actions (fst (snd (FBX_onLoad (example_model\<lparr>animations := []\<rparr>)
                                            (pending_instance, initial_world)))))) = None
   \<and> \<not> truthy (prop_of (animationParams pending_instance) ''play'')"
  using FBX_onLoad_reads_first_animation [of example_model pending_instance initial_world]
        FBX_onLoad_reads_first_animation [of "example_model\<lparr>animations := []\<rparr>"
                                             pending_instance initial_world]
  by (simp add: example_model_def pending_instance_def defaultParam_def)

subsection \<open>update of the FBX instance\<close>

text \<open>
  Whatever the URL extractor: the FBX \<open>update\<close> returns false and leaves the instance
  alone when the URL of \<open>definition.gltf2\<close> is not the instance's, and it never looks at
  \<open>definition.fbx\<close>.
\<close>

lemma FBX_update_reads_gltf2:
  assumes "get_prop d ''gltf2'' = Inr g" and "url_or_empty ex g \<noteq> url i"
  shows "FBX_update ex d i = Inr (False, i)"
  using assms by (simp add: FBX_update_def)

lemma FBX_update_own_definition:
  assumes "fst (FBX_constructor ex idn d par w) = Inr (b, i)"
    and "prop_of d ''gltf2'' = JUndefined" and "url i \<noteq> url_or_empty ex JUndefined"
  shows "FBX_update ex d i = Inr (False, i)"
proof -
  from assms(1) have "d \<noteq> JUndefined \<and> d \<noteq> JNull"
    by (auto simp add: FBX_constructor_def get_prop_def split: if_splits)
  then have "get_prop d ''gltf2'' = Inr JUndefined"
    using assms(2) by (simp add: get_prop_def)
  then show ?thesis using assms(3) by (auto intro: FBX_update_reads_gltf2)
qed

text \<open>
  C3 (the FBX \<open>update\<close> returns true and applies the animation changes exactly when the
  URL of the definition's \<open>fbx\<close> field is the instance's). The FBX \<open>update\<close> compares the
  instance's URL with the URL of \<open>definition.gltf2\<close>: given the very definition the
  instance was constructed from, whose \<open>fbx\<close> URL is the instance's, it returns false
  and changes nothing, where the GLTF2 \<open>update\<close> returns true on its counterpart.
\<close>

theorem FBX_update_rejects_own_definition:
  "fst (FBX_constructor extractURL 0 fbx_definition 7 initial_world)
     = Inr (NetworkLoad, fbx_instance)
   \<and> url_or_empty extractURL (prop_of fbx_definition ''fbx'') = url fbx_instance
   \<and> FBX_update extractURL fbx_definition fbx_instance = Inr (False, fbx_instance)
   \<and> fst (GLTF2_constructor extractURL True 0 gltf2_definition 7 initial_world)
       = Inr (NetworkLoad, gltf2_instance)
   \<and> map_sum id fst (GLTF2_update extractURL gltf2_definition gltf2_instance) = Inr True"
  by (simp add: FBX_constructor_def GLTF2_constructor_def fbx_definition_def gltf2_definition_def
        fbx_instance_def gltf2_instance_def get_prop_def url_or_empty_def extractURL_def
        parseAnimationParams_def js_or_def initial_world_def FBX_update_def GLTF2_update_def
        cache_hit_def cache_has_def download_pending_def dict_lookup_def object_prototype_keys_def
        updateAnimation_def Let_def request_key_def stop_key_def animName_def
        ordered_keys_no_index array_index_no_digit digit_of_char_def)

subsection \<open>Reference counts\<close>

lemma FBX_constructor_cache: "cache (snd (FBX_constructor ex idn d par w)) = cache w"
  by (simp add: FBX_constructor_def Let_def split: sum.splits)

lemma GLTF2_onLoad_refcount:
  "cache w (url i) = Some (m, n) \<Longrightarrow>
   refcount (cache (snd (snd (GLTF2_onLoad strict gltf (i, w))))) (url i) = Suc n"
  by (auto simp add: GLTF2_onLoad_def Let_def cache_has_def addReference_def refcount_def
      split: sum.splits list.splits)

text \<open>The GLTF2 constructor adds a reference to a URL that has an entry.\<close>

lemma GLTF2_constructor_adds_reference:
  assumes "get_prop d ''gltf2'' = Inr g" and "cache w (url_or_empty ex g) = Some (m, n)"
  shows "refcount (cache (snd (GLTF2_constructor ex strict idn d par w))) (url_or_empty ex g)
           = Suc n"
proof -
  let ?i = "\<lparr>ident = idn, url = url_or_empty ex g, parent = par, scene = None,
             mixer = None, actions = [], timeStamp = - 1, activeAnimations = [],
             allAnimations = Map.empty, animationParams = parseAnimationParams d\<rparr>"
  have "refcount (cache (snd (snd (GLTF2_onLoad strict m (?i, w))))) (url ?i) = Suc n"
    by (rule GLTF2_onLoad_refcount) (simp add: assms)
  then show ?thesis using assms
    by (auto simp add: GLTF2_constructor_def Let_def cache_hit_def cache_has_def cache_get_def
        split: prod.splits option.splits)
qed


text \<open>
  The FBX constructor never looks at \<open>fbxStateCache\<close>: it leaves every reference count
  as it was, also that of a URL with an entry, to which the GLTF2 constructor adds a
  reference.
\<close>

lemma FBX_constructor_keeps_counts:
  "cache (snd (FBX_constructor ex idn d par w)) = cache w
   \<and> refcount (cache (snd (FBX_constructor extractURL 0 fbx_definition 7
                              (cached_world ''model.fbx'')))) ''model.fbx'' = 1
   \<and> refcount (cache (snd (GLTF2_constructor extractURL True 0 gltf2_definition 7
                              (cached_world ''model.gltf'')))) ''model.gltf'' = 2"
  using GLTF2_constructor_adds_reference
          [of gltf2_definition "JStr ''model.gltf''" "cached_world ''model.gltf''" extractURL
              example_model 1 True 0 7]
  by (simp add: FBX_constructor_cache cached_world_def cache_hit_def cache_has_def refcount_def
         gltf2_definition_def get_prop_def url_or_empty_def extractURL_def)

subsection \<open>The GLTF2 cache stays empty\<close>

lemma nothing_cached_constructor:
  "nothing_cached w \<Longrightarrow> nothing_cached (snd (GLTF2_constructor ex strict idn d par w))"
  by (auto simp add: nothing_cached_def GLTF2_constructor_def Let_def cache_hit_def cache_has_def
      split: sum.splits option.splits)

lemma nothing_cached_onLoad:
  "nothing_cached w \<Longrightarrow> nothing_cached (snd (snd (GLTF2_onLoad strict gltf (i, w))))"
  by (auto simp add: nothing_cached_def GLTF2_onLoad_def Let_def cache_has_def
      split: sum.splits list.splits)

lemma nothing_cached_onError:
  "nothing_cached w \<Longrightarrow> nothing_cached (snd (snd (GLTF2_onError (i, w))))"
  by (auto simp add: nothing_cached_def GLTF2_onError_def Let_def)

lemma nothing_cached_dispose:
  "nothing_cached w \<Longrightarrow> nothing_cached (snd (GLTF2_dispose (i, w)))"
  by (auto simp add: nothing_cached_def GLTF2_dispose_def Let_def removeReference_def
      split: option.splits)

lemma nothing_cached_on_instance:
  assumes "\<And>i w. nothing_cached w \<Longrightarrow> nothing_cached (snd (f (i, w)))"
    and "nothing_cached (world_of s)"
  shows "nothing_cached (world_of (on_instance k f s))"
  using assms by (simp add: on_instance_def Let_def)

lemma nothing_cached_step:
  assumes "nothing_cached (world_of s)"
  shows "nothing_cached (world_of (GLTF2_step ex strict s ev))"
proof (cases ev)
  case (Construct d par)
  show ?thesis
    using nothing_cached_constructor [OF assms, of ex strict "length (instances s)" d par]
    by (auto simp add: Construct split: prod.splits sum.splits)
next
  case (LoadDone k gltf)
  show ?thesis unfolding LoadDone GLTF2_step.simps
    by (rule nothing_cached_on_instance [OF _ assms]) (simp add: nothing_cached_onLoad)
next
  case (LoadFailed k)
  show ?thesis unfolding LoadFailed GLTF2_step.simps
    by (rule nothing_cached_on_instance [OF _ assms]) (simp add: nothing_cached_onError)
next
  case (Update k d)
  show ?thesis unfolding Update GLTF2_step.simps
    by (rule nothing_cached_on_instance [OF _ assms]) (simp split: sum.splits)
next
  case (Dispose k)
  show ?thesis unfolding Dispose GLTF2_step.simps
    by (rule nothing_cached_on_instance [OF _ assms]) (simp add: nothing_cached_dispose)
qed

lemma nothing_cached_foldl:
  "nothing_cached (world_of s) \<Longrightarrow>
   nothing_cached (world_of (foldl (GLTF2_step ex strict) s evs))"
  by (induction evs arbitrary: s) (simp_all add: nothing_cached_step)

lemma nothing_cached_run: "nothing_cached (world_of (GLTF2_run ex strict evs))"
  unfolding GLTF2_run_def
  by (rule nothing_cached_foldl) (simp add: nothing_cached_def initial_system_def initial_world_def)

text \<open>
  After every sequence of events of the GLTF2 module the cache and \<open>loadList\<close> have no
  entry. With \<open>RefCountCache.has\<close> as modelled, the cache-hit branch is then never taken
  and the load callback adds no reference; the pending-download test succeeds exactly for
  the URLs that name an inherited property; and the construction of an instance from a
  definition that is neither undefined nor null, for any other URL, asks the engine to load
  the URL.
\<close>

lemma GLTF2_run_never_caches:
  "cache (world_of (GLTF2_run ex strict evs)) = Map.empty
   \<and> loadList (world_of (GLTF2_run ex strict evs)) = Map.empty
   \<and> \<not> cache_hit (world_of (GLTF2_run ex strict evs)) u
   \<and> (download_pending (world_of (GLTF2_run ex strict evs)) u
        \<longleftrightarrow> u \<in> set object_prototype_keys)
   \<and> cache (snd (snd (GLTF2_onLoad strict gltf (i, world_of (GLTF2_run ex strict evs)))))
       = Map.empty
   \<and> (get_prop d ''gltf2'' = Inr g \<and> url_or_empty ex g \<notin> set object_prototype_keys \<longrightarrow>
        (\<exists>j. url j = url_or_empty ex g \<and>
          GLTF2_constructor ex strict idn d par (world_of (GLTF2_run ex strict evs))
            = (Inr (NetworkLoad, j),
               (world_of (GLTF2_run ex strict evs))
                 \<lparr>effects := effects (world_of (GLTF2_run ex strict evs))
                               @ [LoaderLoad idn (url_or_empty ex g)]\<rparr>)))"
proof -
  let ?w = "world_of (GLTF2_run ex strict evs)"
  have nc: "nothing_cached ?w" by (rule nothing_cached_run)
  then have c: "cache ?w = Map.empty" and l: "loadList ?w = Map.empty"
    by (simp_all add: nothing_cached_def)
  have h: "\<not> cache_hit ?w u" by (simp add: cache_hit_def cache_has_def c)
  have p: "download_pending ?w u \<longleftrightarrow> u \<in> set object_prototype_keys"
    by (simp add: download_pending_def dict_lookup_def l)
  have o: "cache (snd (snd (GLTF2_onLoad strict gltf (i, ?w)))) = Map.empty"
    using nothing_cached_onLoad [OF nc, of strict gltf i] by (simp add: nothing_cached_def)
  have n: "get_prop d ''gltf2'' = Inr g \<and> url_or_empty ex g \<notin> set object_prototype_keys \<longrightarrow>
        (\<exists>j. url j = url_or_empty ex g \<and>
          GLTF2_constructor ex strict idn d par ?w
            = (Inr (NetworkLoad, j),
               ?w\<lparr>effects := effects ?w @ [LoaderLoad idn (url_or_empty ex g)]\<rparr>))"
    by (simp add: GLTF2_constructor_def Let_def cache_hit_def cache_has_def c
          download_pending_def dict_lookup_def l)
  from c l h p o n show ?thesis by blast
qed

text \<open>
  C4 (the pending-download branch is unreachable and every construction of an instance
  starts a network load). \<open>loadList\<close> is an object literal, so \<open>loadList[this.url]\<close> is
  truthy for a URL that names a property inherited from \<open>Object.prototype\<close>, although no
  download of it has started. In the initial state the constructor takes the
  pending-download branch for the URL \<open>constructor\<close> and throws there, \<open>push\<close> not being
  a function: no load is requested and no instance results.
\<close>

theorem GLTF2_constructor_inherited_url:
  "download_pending (world_of (GLTF2_run extractURL True [])) ''constructor''
   \<and> GLTF2_constructor extractURL True 0 (JObj [(''gltf2'', JStr ''constructor'')]) 7
        (world_of (GLTF2_run extractURL True []))
      = (Inl TypeError_call, initial_world)"
  by (simp add: GLTF2_run_def initial_system_def initial_world_def download_pending_def
        dict_lookup_def object_prototype_keys_def GLTF2_constructor_def get_prop_def
        url_or_empty_def extractURL_def cache_hit_def cache_has_def Let_def)

subsection \<open>Playback at load time\<close>


lemma get_prop_truthy: "truthy v \<Longrightarrow> get_prop v k = Inr (prop_of v k)"
  by (auto simp add: get_prop_def)









text \<open>
  In strict code the GLTF2 load callback of a definition that asks for playback throws at
  the first clip: no action is set up or played, no name is stored, and the frame callback
  that would add the scene to the parent is not requested.
\<close>

lemma GLTF2_onLoad_play_strict:
  assumes "truthy (animationParams i)" and "truthy (prop_of (animationParams i) ''play'')"
    and "animations gltf = c # cs"
  shows "GLTF2_onLoad True gltf (i, w)
           = (Some ReferenceError,
              i\<lparr>scene := Some (scene_of gltf), mixer := Some (AnimationMixer (scene_of gltf)),
                 actions := actions i @ [new_action (Some c)]\<rparr>,
              if cache_has (cache w) (url i) then w\<lparr>cache := addReference (cache w) (url i)\<rparr>
              else w)"
  using assms(2,3) by (simp add: GLTF2_onLoad_def Let_def get_prop_truthy [OF assms(1)])




subsection \<open>Reconciliation of the animations\<close>

lemma animName_inj [simp]: "animName k = animName k' \<longleftrightarrow> k = k'"
  by (simp add: animName_def)

lemma animName_not_inherited: "animName k \<notin> set object_prototype_keys"
  by (simp add: animName_def object_prototype_keys_def)

subsection \<open>The loop over the requested keys\<close>


















subsection \<open>The loop over the leftover animations\<close>
















lemma wf_instance_cong:
  "actions j = actions i \<Longrightarrow> allAnimations j = allAnimations i
   \<Longrightarrow> activeAnimations j = activeAnimations i \<Longrightarrow> wf_instance j = wf_instance i"
  by (simp add: wf_instance_def)


















lemma loaded_instance_reached:
  "instances (GLTF2_run extractURL False
                [Construct playing_gltf2_definition 7, LoadDone 0 example_model])
     = [loaded_instance]"
  by (simp add: GLTF2_run_def initial_system_def initial_world_def playing_gltf2_definition_def
        GLTF2_constructor_def get_prop_def url_or_empty_def extractURL_def cache_hit_def
        cache_has_def download_pending_def dict_lookup_def object_prototype_keys_def
        parseAnimationParams_def js_or_def on_instance_def GLTF2_onLoad_def Let_def
        example_model_def or_default_def play_clip_def new_action_def loaded_instance_def
        played_action_def)

lemmas run_defs = GLTF2_run_def initial_system_def initial_world_def
        GLTF2_constructor_def get_prop_def url_or_empty_def extractURL_def cache_hit_def
        cache_has_def download_pending_def dict_lookup_def object_prototype_keys_def
        parseAnimationParams_def js_or_def on_instance_def GLTF2_onLoad_def Let_def
        example_model_def or_default_def play_clip_def new_action_def
        played_action_def GLTF2_update_def updateAnimation_def request_key_def
        animName_def stop_key_def apply_params_def
        ordered_keys_no_index array_index_no_digit digit_of_char_def










subsection \<open>Animations that are not tracked\<close>

text \<open>
  The load callback stores an animation in \<open>allAnimations\<close> only where it plays it. After
  a load without \<open>play\<close>, an update that requests an animation of the model records its
  name as active, but there is no action to start: the animation is never started, in
  strict and in non-strict code.
\<close>

lemma requested_clip_never_started:
  "Clip ''animation_walk'' \<in> set (animations example_model)
   \<and> instances (GLTF2_run extractURL strict
        [Construct gltf2_definition 7, LoadDone 0 example_model, Update 0 gltf2_definition])
     = [gltf2_instance\<lparr>scene := Some example_scene, mixer := Some (AnimationMixer example_scene),
                       activeAnimations := [''animation_walk'']\<rparr>]"
  by (simp add: run_defs gltf2_definition_def gltf2_instance_def)

text \<open>
  The animations the load callback plays are not recorded in \<open>activeAnimations\<close>: an
  update that does not request them leaves them playing, and so does an update with the
  empty object for \<open>animations\<close>.
\<close>

lemma unrecorded_animations_keep_playing:
  "GLTF2_update extractURL walk_definition loaded_instance
     = Inr (True, loaded_instance
              \<lparr>actions := [(played_action (JObj [(''play'', JBool True)])
                              (Some (Clip ''animation_walk'')))\<lparr>weight_value := Some (JNum 1)\<rparr>,
                           played_action (JObj [(''play'', JBool True)])
                             (Some (Clip ''animation_run''))],
                activeAnimations := [''animation_walk'']\<rparr>)
   \<and> GLTF2_update extractURL empty_definition loaded_instance = Inr (True, loaded_instance)"
  by (simp add: run_defs walk_definition_def empty_definition_def loaded_instance_def)

subsection \<open>Reference counts in runs\<close>















end
